theory Spec2Isabelle
  imports Main "HOL-Library.Multiset" "HOL-Library.AList"
begin

section \<open>Data model of birthday\_match.py\<close>

subsection \<open>Calendar dates\<close>

text \<open>
  A \<^verbatim>\<open>datetime.date\<close>: the three integer attributes the program reads. Python orders
  dates by (year, month, day), which is what \<^verbatim>\<open>m_date < today\<close> and the sort on the
  \<^verbatim>\<open>Date\<close> column use.
\<close>

record date =
  year :: int
  month :: int
  day :: int

definition date_less :: "date \<Rightarrow> date \<Rightarrow> bool" where
  "date_less a b =
     (year a < year b \<or>
      (year a = year b \<and> (month a < month b \<or> (month a = month b \<and> day a < day b))))"

definition date_le :: "date \<Rightarrow> date \<Rightarrow> bool" where
  "date_le a b =
     (year a < year b \<or>
      (year a = year b \<and> (month a < month b \<or> (month a = month b \<and> day a \<le> day b))))"

subsection \<open>Strings\<close>

text \<open>
  \<^verbatim>\<open>str.lower()\<close> and \<^verbatim>\<open>str.strip()\<close> on the ASCII range: the letters A to Z are
  mapped to a to z, and the characters Python counts as white space (codes 9 to 13, 28 to
  31 and 32) are removed from both ends. Every other character is left as it is. Python
  also lowers letters outside ASCII and strips the white space of Unicode (such as U+0085
  and U+00A0); a name with such characters is outside what these two functions model. No
  property below depends on what they compute: they only name the two keys.
\<close>

definition lower_char :: "char \<Rightarrow> char" where
  "lower_char c =
     (let n = (of_char c :: nat) in if 65 \<le> n \<and> n \<le> 90 then char_of (n + 32) else c)"

definition lower :: "string \<Rightarrow> string" where
  "lower s = map lower_char s"

definition isspace :: "char \<Rightarrow> bool" where
  "isspace c =
     (let n = (of_char c :: nat) in (9 \<le> n \<and> n \<le> 13) \<or> (28 \<le> n \<and> n \<le> 32))"

definition strip :: "string \<Rightarrow> string" where
  "strip s = rev (dropWhile isspace (rev (dropWhile isspace s)))"

subsection \<open>Dictionaries\<close>

text \<open>
  A Python \<^verbatim>\<open>dict\<close> is kept as an association list with distinct keys in insertion
  order: \<^verbatim>\<open>d[k] = v\<close> is \<^const>\<open>AList.update\<close> (a later write to the same key
  replaces the value), \<^verbatim>\<open>d.get(k)\<close> is \<^const>\<open>map_of\<close>, and \<^verbatim>\<open>not d\<close> is
  \<open>d = []\<close>.
\<close>

type_synonym ('k, 'v) dict = "('k \<times> 'v) list"

fun dict_of :: "('k \<times> 'v) list \<Rightarrow> ('k, 'v) dict \<Rightarrow> ('k, 'v) dict" where
  "dict_of [] d = d"
| "dict_of ((k, v) # kvs) d = dict_of kvs (AList.update k v d)"

subsection \<open>The three responses\<close>

text \<open>
  Each request either raises (transport error, HTTP status, JSON decoding, a missing top
  level field) or delivers the decoded body. The bodies keep the fields the program reads.
\<close>

datatype fetch_error = Request_failed

record element =
  first_name :: string
  second_name :: string
  web_name :: string
  team :: int

record bootstrap =
  teams :: "(int \<times> string) list"
  elements :: "element list"

text \<open>
  A fixture of the fixtures feed. \<open>kickoff_time\<close> is the calendar date that
  \<^verbatim>\<open>pd.to_datetime(...).dt.date\<close> leaves in the column, \<open>None\<close> for a null kickoff.
\<close>

record fixture_json =
  team_h :: int
  team_a :: int
  kickoff_time :: "date option"

text \<open>
  A binding of the query service. A field is \<open>None\<close> when reading it raises inside the
  inner \<^verbatim>\<open>try\<close>: the key is missing, or \<^verbatim>\<open>pd.to_datetime\<close> rejects the value.
\<close>

record binding =
  playerLabel :: "string option"
  dob :: "date option"

subsection \<open>Rows of the frames\<close>

text \<open>
  A row of \<^verbatim>\<open>players\<close> after the three added columns. \<open>Team_Name\<close> is \<open>None\<close>
  where \<^verbatim>\<open>Series.map(teams)\<close> finds no key and stores NaN.
\<close>

record player = element +
  full_name :: string
  match_key :: string
  Team_Name :: "string option"

text \<open>A row of \<^verbatim>\<open>fixtures\<close> after \<^verbatim>\<open>dropna\<close> and the two added columns.\<close>

record fixture =
  kickoff_date :: date
  Home :: "string option"
  Away :: "string option"

text \<open>
  The two status texts are the literals of line 107, a check mark followed by PLAYED and
  an arrow followed by UPCOMING.
\<close>

datatype status = PLAYED | UPCOMING

record match_record =
  Date :: date
  Status :: status
  CssClass :: string
  Player :: string
  Team :: "string option"
  Turning_Age :: int
  Opponent :: string

section \<open>get\_wikidata\_birthdays\<close>

fun wikidata_loop :: "binding list \<Rightarrow> (string, date) dict \<Rightarrow> (string, date) dict" where
  "wikidata_loop [] dob_map = dob_map"
| "wikidata_loop (item # items) dob_map =
     wikidata_loop items
       (case playerLabel item of
          None \<Rightarrow> dob_map
        | Some name \<Rightarrow>
            (case dob item of
               None \<Rightarrow> dob_map
             | Some dob_date \<Rightarrow> AList.update (strip (lower name)) dob_date dob_map))"

definition get_wikidata_birthdays :: "fetch_error + binding list \<Rightarrow> (string, date) dict" where
  "get_wikidata_birthdays response =
     (case response of Inl e \<Rightarrow> [] | Inr bindings \<Rightarrow> wikidata_loop bindings [])"

section \<open>get\_data\<close>

subsection \<open>Building the frames\<close>

definition player_row :: "(int, string) dict \<Rightarrow> element \<Rightarrow> player" where
  "player_row teams_d e =
     (let fn = first_name e @ '' '' @ second_name e in
      element.extend e
        \<lparr>full_name = fn, match_key = strip (lower fn), Team_Name = map_of teams_d (team e)\<rparr>)"

fun dropna :: "(int, string) dict \<Rightarrow> fixture_json list \<Rightarrow> fixture list" where
  "dropna teams_d [] = []"
| "dropna teams_d (f # fs) =
     (case kickoff_time f of
        None \<Rightarrow> dropna teams_d fs
      | Some d \<Rightarrow>
          \<lparr>kickoff_date = d, Home = map_of teams_d (team_h f), Away = map_of teams_d (team_a f)\<rparr>
            # dropna teams_d fs)"

subsection \<open>The matching loops\<close>

text \<open>
  Comparison of a frame cell with \<^verbatim>\<open>p_team\<close>: a NaN on either side compares unequal
  (also to another NaN), so only two present names can be equal.
\<close>

definition cell_eq :: "string option \<Rightarrow> string option \<Rightarrow> bool" where
  "cell_eq a b = (case a of None \<Rightarrow> False | Some x \<Rightarrow> (case b of None \<Rightarrow> False | Some y \<Rightarrow> x = y))"

text \<open>What an f-string prints for a cell: the name, or \<^verbatim>\<open>nan\<close>.\<close>

definition cell_str :: "string option \<Rightarrow> string" where
  "cell_str a = (case a of None \<Rightarrow> ''nan'' | Some s \<Rightarrow> s)"

text \<open>Lines 91 to 94: the full-name key first, the short name only when that finds nothing.\<close>

definition lookup_dob :: "(string, date) dict \<Rightarrow> player \<Rightarrow> date option" where
  "lookup_dob dob_map p =
     (case map_of dob_map (match_key p) of
        Some d \<Rightarrow> Some d
      | None \<Rightarrow> map_of dob_map (strip (lower (web_name p))))"

text \<open>Line 98: the rows of \<^verbatim>\<open>fixtures\<close> whose home or away name equals \<^verbatim>\<open>p_team\<close>.\<close>

definition team_fix :: "fixture list \<Rightarrow> string option \<Rightarrow> fixture list" where
  "team_fix fixtures p_team =
     filter (\<lambda>m. cell_eq (Home m) p_team \<or> cell_eq (Away m) p_team) fixtures"

text \<open>Lines 105 to 118: the dictionary appended for one matching fixture.\<close>

definition match_row :: "date \<Rightarrow> player \<Rightarrow> date \<Rightarrow> fixture \<Rightarrow> match_record" where
  "match_row today p p_dob m =
     (let m_date = kickoff_date m;
          p_team = Team_Name p;
          venue = (if cell_eq p_team (Home m) then ''vs'' else ''@'');
          opponent = (if cell_eq p_team (Home m) then Away m else Home m);
          status = (if date_less m_date today then PLAYED else UPCOMING);
          css_class = (if date_less m_date today then ''played'' else ''upcoming'')
      in \<lparr>Date = m_date, Status = status, CssClass = css_class, Player = full_name p,
          Team = p_team, Turning_Age = year m_date - year p_dob,
          Opponent = venue @ '' '' @ cell_str opponent\<rparr>)"

fun fixture_loop ::
  "date \<Rightarrow> player \<Rightarrow> date \<Rightarrow> fixture list \<Rightarrow> match_record list \<Rightarrow> match_record list" where
  "fixture_loop today p p_dob [] matches_found = matches_found"
| "fixture_loop today p p_dob (m # ms) matches_found =
     fixture_loop today p p_dob ms
       (if month (kickoff_date m) = month p_dob \<and> day (kickoff_date m) = day p_dob
        then matches_found @ [match_row today p p_dob m]
        else matches_found)"

fun player_loop ::
  "date \<Rightarrow> (string, date) dict \<Rightarrow> fixture list \<Rightarrow> player list \<Rightarrow> match_record list
     \<Rightarrow> match_record list" where
  "player_loop today dob_map fixtures [] matches_found = matches_found"
| "player_loop today dob_map fixtures (p # ps) matches_found =
     player_loop today dob_map fixtures ps
       (case lookup_dob dob_map p of
          None \<Rightarrow> matches_found
        | Some p_dob \<Rightarrow>
            fixture_loop today p p_dob (team_fix fixtures (Team_Name p)) matches_found)"

subsection \<open>The final sort\<close>

text \<open>
  \<^verbatim>\<open>sort_values\<close> is pandas' routine, not the repository's. It is a parameter of the
  model, a function on the rows of the frame; \<open>sort_contract\<close> is what pandas promises
  of it for any sorting kind: the same rows, in non-decreasing order of the \<^verbatim>\<open>Date\<close>
  column.
\<close>

type_synonym sorter = "match_record list \<Rightarrow> match_record list"

definition sort_contract :: "sorter \<Rightarrow> bool" where
  "sort_contract srt =
     (\<forall>rows. mset (srt rows) = mset rows \<and> sorted_wrt (\<lambda>a b. date_le (Date a) (Date b)) (srt rows))"

datatype py_error = KeyError string

text \<open>
  Line 120. A frame built from an empty list has no columns at all, so asking for the
  column \<^verbatim>\<open>Date\<close> raises \<^verbatim>\<open>KeyError\<close>; nothing catches it.
\<close>

definition sort_values :: "sorter \<Rightarrow> match_record list \<Rightarrow> py_error + match_record list" where
  "sort_values srt matches_found =
     (if matches_found = [] then Inl (KeyError ''Date'') else Inr (srt matches_found))"

subsection \<open>get\_data as a whole\<close>

text \<open>Lines 58 to 62 and 77 to 81: the dictionary of team names and the two frames.\<close>

definition teams_dict :: "bootstrap \<Rightarrow> (int, string) dict" where
  "teams_dict data = dict_of (teams data) []"

definition players_frame :: "bootstrap \<Rightarrow> player list" where
  "players_frame data = map (player_row (teams_dict data)) (elements data)"

definition fixtures_frame :: "bootstrap \<Rightarrow> fixture_json list \<Rightarrow> fixture list" where
  "fixtures_frame data fix_resp = dropna (teams_dict data) fix_resp"

text \<open>The list \<^verbatim>\<open>matches_found\<close> when the outer loop has ended.\<close>

definition matches_found ::
  "date \<Rightarrow> bootstrap \<Rightarrow> (string, date) dict \<Rightarrow> fixture_json list \<Rightarrow> match_record list" where
  "matches_found today data dob_map fix_resp =
     player_loop today dob_map (fixtures_frame data fix_resp) (players_frame data) []"

text \<open>
  The arguments are the sorting routine, the value of \<^verbatim>\<open>datetime.now().date()\<close> and
  the outcomes of the three requests. The result is the rows of the returned frame, or the
  exception that leaves the function. An empty list of elements or of fixtures makes
  \<^verbatim>\<open>pd.DataFrame\<close> a frame without columns, and the first column access raises inside
  the \<^verbatim>\<open>try\<close>.
\<close>

definition get_data ::
  "sorter \<Rightarrow> date \<Rightarrow> fetch_error + bootstrap \<Rightarrow> fetch_error + binding list
     \<Rightarrow> fetch_error + fixture_json list \<Rightarrow> py_error + match_record list" where
  "get_data srt today roster_response wikidata_response fix_response =
     (case roster_response of
        Inl e \<Rightarrow> Inr []
      | Inr data \<Rightarrow>
          if elements data = [] then Inr []
          else
            let dob_map = get_wikidata_birthdays wikidata_response
            in if dob_map = [] then Inr []
               else
                 (case fix_response of
                    Inl e \<Rightarrow> Inr []
                  | Inr fix_resp \<Rightarrow>
                      if fix_resp = [] then Inr []
                      else sort_values srt (matches_found today data dob_map fix_resp)))"

section \<open>The report\<close>

text \<open>
  The text written to \<^verbatim>\<open>index.html\<close>, as the sequence of pieces the script appends:
  the head with the number of rows in its summary line, one card per row, the paragraph
  of line 178, and the closing tags.
\<close>

datatype fragment = Page_head nat | Card match_record | Html string

definition no_matches :: fragment where
  "no_matches = Html ''<p style='text-align:center'>No matches found.</p>''"

definition page_end :: fragment where
  "page_end = Html ''</body></html>''"

definition html_content :: "match_record list \<Rightarrow> fragment list" where
  "html_content df =
     Page_head (length df) # (if df \<noteq> [] then map Card df else [no_matches]) @ [page_end]"

definition script ::
  "sorter \<Rightarrow> date \<Rightarrow> fetch_error + bootstrap \<Rightarrow> fetch_error + binding list
     \<Rightarrow> fetch_error + fixture_json list \<Rightarrow> py_error + fragment list" where
  "script srt today roster_response wikidata_response fix_response =
     (case get_data srt today roster_response wikidata_response fix_response of
        Inl err \<Rightarrow> Inl err
      | Inr df \<Rightarrow> Inr (html_content df))"


section \<open>Sorting routines\<close>

subsection \<open>Stable order\<close>

text \<open>
  Insertion of each row before the first row with a later or equal date, from the last row
  to the first: rows come out by ascending date, and rows with equal dates keep the order
  in which they were generated. This is the order the specification describes.
\<close>

fun insort_date :: "match_record \<Rightarrow> match_record list \<Rightarrow> match_record list" where
  "insort_date r [] = [r]"
| "insort_date r (x # xs) =
     (if date_le (Date r) (Date x) then r # x # xs else x # insort_date r xs)"

definition stable_sort_values :: sorter where
  "stable_sort_values rows = foldr insort_date rows []"

subsection \<open>The default kind of pandas: quicksort of numpy\<close>

text \<open>
  \<^verbatim>\<open>sort_values('Date')\<close> names no kind, so pandas asks numpy for
  \<^verbatim>\<open>argsort(kind='quicksort')\<close> of the column (objects of type \<^verbatim>\<open>datetime.date\<close>,
  compared with \<^verbatim>\<open><\<close>) and takes the rows in the order of the returned indices. The
  routine is numpy's \<^verbatim>\<open>npy_aquicksort\<close>: an introsort on an array \<^verbatim>\<open>tosort\<close> of
  indices into the values \<open>v\<close>. It belongs to the library and not to the repository; it
  is written out here to evaluate the sort on a concrete frame.
\<close>

text \<open>\<^verbatim>\<open>INTP_SWAP\<close>, on two cells of the index array.\<close>

definition intp_swap :: "nat list \<Rightarrow> nat \<Rightarrow> nat \<Rightarrow> nat list" where
  "intp_swap tosort i j = tosort[i := tosort ! j, j := tosort ! i]"

text \<open>The depth limit: the position of the highest set bit of the length.\<close>

function npy_get_msb :: "nat \<Rightarrow> nat" where
  "npy_get_msb unum = (if unum div 2 = 0 then 0 else Suc (npy_get_msb (unum div 2)))"
  by pat_completeness auto
termination
  by (relation "measure (\<lambda>unum. unum)") auto

text \<open>
  The two inner scans of the partition, \<^verbatim>\<open>do ++pi while (v[*pi] < vp)\<close> and
  \<^verbatim>\<open>do --pj while (vp < v[*pj])\<close>. In C they stop at the latest at the pivot stored in
  cell \<open>pr - 1\<close> and at the median-of-three minimum in cell \<open>pl\<close>; the model stops
  there without asking, which is what makes the functions total for any comparison.
\<close>

function scan_up :: "('a \<Rightarrow> 'a \<Rightarrow> bool) \<Rightarrow> 'a list \<Rightarrow> 'a \<Rightarrow> nat list \<Rightarrow> nat \<Rightarrow> nat \<Rightarrow> nat" where
  "scan_up lt v vp tosort pr pi =
     (if Suc (Suc pi) < pr \<and> lt (v ! (tosort ! Suc pi)) vp
      then scan_up lt v vp tosort pr (Suc pi) else Suc pi)"
  by pat_completeness auto
termination
  by (relation "measure (\<lambda>(lt, v, vp, tosort, pr, pi). pr - pi)") auto

function scan_down :: "('a \<Rightarrow> 'a \<Rightarrow> bool) \<Rightarrow> 'a list \<Rightarrow> 'a \<Rightarrow> nat list \<Rightarrow> nat \<Rightarrow> nat \<Rightarrow> nat" where
  "scan_down lt v vp tosort pl pj =
     (if pl < pj - 1 \<and> lt vp (v ! (tosort ! (pj - 1)))
      then scan_down lt v vp tosort pl (pj - 1) else pj - 1)"
  by pat_completeness auto
termination
  by (relation "measure (\<lambda>(lt, v, vp, tosort, pl, pj). pj)") auto

declare scan_up.simps [simp del] scan_down.simps [simp del] npy_get_msb.simps [simp del]

lemma scan_up_ge: "Suc pi \<le> scan_up lt v vp tosort pr pi"
  by (induction lt v vp tosort pr pi rule: scan_up.induct)
     (subst scan_up.simps, auto)

lemma scan_up_less: "Suc pi < pr \<Longrightarrow> scan_up lt v vp tosort pr pi < pr"
  by (induction lt v vp tosort pr pi rule: scan_up.induct)
     (subst scan_up.simps, auto)

lemma scan_down_le: "scan_down lt v vp tosort pl pj \<le> pj"
  by (induction lt v vp tosort pl pj rule: scan_down.induct)
     (subst scan_down.simps, auto)

text \<open>The \<^verbatim>\<open>for (;;)\<close> loop: scan from both ends, stop when the scans meet, else swap.\<close>

function partition_loop ::
  "('a \<Rightarrow> 'a \<Rightarrow> bool) \<Rightarrow> 'a list \<Rightarrow> 'a \<Rightarrow> nat list \<Rightarrow> nat \<Rightarrow> nat \<Rightarrow> nat \<Rightarrow> nat \<Rightarrow> nat list \<times> nat" where
  "partition_loop lt v vp tosort pl pr pi pj =
     (let pi' = scan_up lt v vp tosort pr pi;
          pj' = scan_down lt v vp tosort pl pj
      in if pi' \<ge> pj' then (tosort, pi')
         else partition_loop lt v vp (intp_swap tosort pi' pj') pl pr pi' pj')"
  by pat_completeness auto
termination
proof (relation "measure (\<lambda>(lt, v, vp, tosort, pl, pr, pi, pj). pj - pi)", goal_cases)
  case 1
  show ?case by simp
next
  case (2 lt v vp tosort pl pr pi pj x xa)
  then show ?case
    using scan_up_ge [of pi lt v vp tosort pr] scan_down_le [of lt v vp tosort pl pj]
    by simp
qed


declare partition_loop.simps [simp del]

lemma partition_loop_bounds:
  "Suc pi < pr \<Longrightarrow> pj < pr \<Longrightarrow>
     pi < snd (partition_loop lt v vp tosort pl pr pi pj) \<and>
     snd (partition_loop lt v vp tosort pl pr pi pj) < pr"
proof (induction lt v vp tosort pl pr pi pj rule: partition_loop.induct)
  case (1 lt v vp tosort pl pr pi pj)
  let ?pi = "scan_up lt v vp tosort pr pi"
  let ?pj = "scan_down lt v vp tosort pl pj"
  have up: "Suc pi \<le> ?pi" "?pi < pr"
    by (rule scan_up_ge) (rule scan_up_less [OF "1.prems"(1)])
  have down: "?pj \<le> pj"
    by (rule scan_down_le)
  show ?case
  proof (cases "?pj \<le> ?pi")
    case True
    then show ?thesis
      using up by (subst (1 2) partition_loop.simps) (simp add: Let_def)
  next
    case False
    then have "Suc ?pi < pr" "?pj < pr"
      using down "1.prems"(2) by auto
    from "1.IH" [OF refl refl _ this] False
    have "?pi < snd (partition_loop lt v vp (intp_swap tosort ?pi ?pj) pl pr ?pi ?pj)
        \<and> snd (partition_loop lt v vp (intp_swap tosort ?pi ?pj) pl pr ?pi ?pj) < pr"
      by simp
    then show ?thesis
      using up False by (subst (1 2) partition_loop.simps) (simp add: Let_def)
  qed
qed

text \<open>
  One round of the \<^verbatim>\<open>while\<close> loop up to the final swap: median of three on the cells
  \<open>pl\<close>, \<open>pm\<close>, \<open>pr\<close>, the pivot moved to \<open>pr - 1\<close>, the scans, and the pivot
  moved to its place \<open>pi\<close>.
\<close>

definition partition_step ::
  "('a \<Rightarrow> 'a \<Rightarrow> bool) \<Rightarrow> 'a list \<Rightarrow> nat list \<Rightarrow> nat \<Rightarrow> nat \<Rightarrow> nat list \<times> nat" where
  "partition_step lt v tosort pl pr =
     (let pm = pl + (pr - pl) div 2;
          t1 = (if lt (v ! (tosort ! pm)) (v ! (tosort ! pl)) then intp_swap tosort pm pl else tosort);
          t2 = (if lt (v ! (t1 ! pr)) (v ! (t1 ! pm)) then intp_swap t1 pr pm else t1);
          t3 = (if lt (v ! (t2 ! pm)) (v ! (t2 ! pl)) then intp_swap t2 pm pl else t2);
          vp = v ! (t3 ! pm);
          t4 = intp_swap t3 pm (pr - 1);
          (t5, pi) = partition_loop lt v vp t4 pl pr pl (pr - 1)
      in (intp_swap t5 pi (pr - 1), pi))"

lemma partition_bounds:
  assumes "15 < pr - pl" and "partition_step lt v tosort pl pr = (t, pi)"
  shows "pl < pi \<and> pi < pr"
proof -
  have *: "Suc pl < pr" "pr - 1 < pr"
    using assms(1) by auto
  obtain t4 vp where "pi = snd (partition_loop lt v vp t4 pl pr pl (pr - 1))"
    using assms(2) unfolding partition_step_def Let_def
    by (auto split: prod.splits) (metis snd_conv)
  with partition_loop_bounds [OF *, of lt v vp t4 pl] show ?thesis
    by simp
qed

text \<open>The insertion sort that finishes a run of at most 16 cells.\<close>

function shift_up ::
  "('a \<Rightarrow> 'a \<Rightarrow> bool) \<Rightarrow> 'a list \<Rightarrow> 'a \<Rightarrow> nat list \<Rightarrow> nat \<Rightarrow> nat \<Rightarrow> nat list \<times> nat" where
  "shift_up lt v vp tosort pl pj =
     (if pl < pj \<and> lt vp (v ! (tosort ! (pj - 1)))
      then shift_up lt v vp (tosort[pj := tosort ! (pj - 1)]) pl (pj - 1)
      else (tosort, pj))"
  by pat_completeness auto
termination
  by (relation "measure (\<lambda>(lt, v, vp, tosort, pl, pj). pj)") auto

declare shift_up.simps [simp del]

function insertion_sort ::
  "('a \<Rightarrow> 'a \<Rightarrow> bool) \<Rightarrow> 'a list \<Rightarrow> nat list \<Rightarrow> nat \<Rightarrow> nat \<Rightarrow> nat \<Rightarrow> nat list" where
  "insertion_sort lt v tosort pl pr pi =
     (if pi \<le> pr
      then (let vi = tosort ! pi;
                (t, pj) = shift_up lt v (v ! vi) tosort pl pi
            in insertion_sort lt v (t[pj := vi]) pl pr (Suc pi))
      else tosort)"
  by pat_completeness auto
termination
  by (relation "measure (\<lambda>(lt, v, tosort, pl, pr, pi). Suc pr - pi)") auto

declare insertion_sort.simps [simp del]

text \<open>
  The heap sort used once the depth limit is spent, on the \<open>n\<close> cells from \<open>pl\<close>; the C
  code indexes them from 1, so its \<^verbatim>\<open>a[k]\<close> is cell \<open>pl + k - 1\<close>. The index \<open>j\<close> is
  at least 2 in every call the sort makes.
\<close>

function sift ::
  "('a \<Rightarrow> 'a \<Rightarrow> bool) \<Rightarrow> 'a list \<Rightarrow> nat list \<Rightarrow> nat \<Rightarrow> nat \<Rightarrow> nat \<Rightarrow> nat \<Rightarrow> nat \<Rightarrow> nat list \<times> nat" where
  "sift lt v tosort pl tmp n i j =
     (if 0 < j \<and> j \<le> n
      then (let j' = (if j < n \<and> lt (v ! (tosort ! (pl + j - 1))) (v ! (tosort ! (pl + j)))
                      then j + 1 else j)
            in if lt (v ! tmp) (v ! (tosort ! (pl + j' - 1)))
               then sift lt v (tosort[pl + i - 1 := tosort ! (pl + j' - 1)]) pl tmp n j' (j' + j')
               else (tosort, i))
      else (tosort, i))"
  by pat_completeness auto
termination
  by (relation "measure (\<lambda>(lt, v, tosort, pl, tmp, n, i, j). Suc n - j)") auto

declare sift.simps [simp del]

fun heapify ::
  "('a \<Rightarrow> 'a \<Rightarrow> bool) \<Rightarrow> 'a list \<Rightarrow> nat list \<Rightarrow> nat \<Rightarrow> nat \<Rightarrow> nat \<Rightarrow> nat list" where
  "heapify lt v tosort pl n 0 = tosort"
| "heapify lt v tosort pl n (Suc l) =
     (let tmp = tosort ! (pl + l);
          (t, i) = sift lt v tosort pl tmp n (Suc l) (2 * Suc l)
      in heapify lt v (t[pl + i - 1 := tmp]) pl n l)"

fun sort_heap ::
  "('a \<Rightarrow> 'a \<Rightarrow> bool) \<Rightarrow> 'a list \<Rightarrow> nat list \<Rightarrow> nat \<Rightarrow> nat \<Rightarrow> nat list" where
  "sort_heap lt v tosort pl 0 = tosort"
| "sort_heap lt v tosort pl (Suc n) =
     (if 0 < n
      then (let tmp = tosort ! (pl + n);
                t1 = tosort[pl + n := tosort ! pl];
                (t2, i) = sift lt v t1 pl tmp n 1 2
            in sort_heap lt v (t2[pl + i - 1 := tmp]) pl n)
      else tosort)"

definition npy_aheapsort ::
  "('a \<Rightarrow> 'a \<Rightarrow> bool) \<Rightarrow> 'a list \<Rightarrow> nat list \<Rightarrow> nat \<Rightarrow> nat \<Rightarrow> nat list" where
  "npy_aheapsort lt v tosort pl n = sort_heap lt v (heapify lt v tosort pl n (n div 2)) pl n"

text \<open>
  The outer loop with its explicit stack of pending runs, each with the depth left for it.
  A run of 17 cells or more is partitioned, a shorter one is left to the insertion sort.
  The depth is looked at when a run is taken from the stack, as in the C code.
\<close>

function quicksort_loop ::
    "('a \<Rightarrow> 'a \<Rightarrow> bool) \<Rightarrow> 'a list \<Rightarrow> nat list \<Rightarrow> nat \<Rightarrow> nat \<Rightarrow> int \<Rightarrow> (nat \<times> nat \<times> int) list
       \<Rightarrow> nat list"
  and stack_pop ::
    "('a \<Rightarrow> 'a \<Rightarrow> bool) \<Rightarrow> 'a list \<Rightarrow> nat list \<Rightarrow> (nat \<times> nat \<times> int) list \<Rightarrow> nat list" where
  "quicksort_loop lt v tosort pl pr cdepth stack =
     (if 15 < pr - pl
      then (let (t, pi) = partition_step lt v tosort pl pr
            in if pi - pl < pr - pi
               then quicksort_loop lt v t pl (pi - 1) (cdepth - 1) ((pi + 1, pr, cdepth - 1) # stack)
               else quicksort_loop lt v t (pi + 1) pr (cdepth - 1) ((pl, pi - 1, cdepth - 1) # stack))
      else stack_pop lt v (insertion_sort lt v tosort pl pr (pl + 1)) stack)"
| "stack_pop lt v tosort [] = tosort"
| "stack_pop lt v tosort ((pl, pr, cdepth) # stack) =
     (if cdepth < 0 then stack_pop lt v (npy_aheapsort lt v tosort pl (pr - pl + 1)) stack
      else quicksort_loop lt v tosort pl pr cdepth stack)"
  by pat_completeness auto
termination
proof (relation "measure (\<lambda>x. case x of
          Inl (lt, v, tosort, pl, pr, cdepth, stack) \<Rightarrow>
            3 * (Suc pr - pl) + 2 + (\<Sum>(l, r, d) \<leftarrow> stack. 3 * (Suc r - l) + 2)
        | Inr (lt, v, tosort, stack) \<Rightarrow> Suc (\<Sum>(l, r, d) \<leftarrow> stack. 3 * (Suc r - l) + 2))",
    goal_cases)
  case 1
  show ?case by simp
next
  case (2 lt v tosort pl pr cdepth stack x xa y)
  then have "partition_step lt v tosort pl pr = (xa, y)" "15 < pr - pl"
    by simp_all
  from partition_bounds [OF this(2,1)] have "pl < y" "y < pr"
    by simp_all
  then show ?case by simp
next
  case (3 lt v tosort pl pr cdepth stack x xa y)
  then have "partition_step lt v tosort pl pr = (xa, y)" "15 < pr - pl"
    by simp_all
  from partition_bounds [OF this(2,1)] have "pl < y" "y < pr"
    by simp_all
  then show ?case by simp
next
  case (4 lt v tosort pl pr cdepth stack)
  then show ?case by simp
next
  case (5 lt v tosort pl pr cdepth stack)
  then show ?case by simp
next
  case (6 lt v tosort pl pr cdepth stack)
  then show ?case by simp
qed

declare quicksort_loop.simps [simp del] stack_pop.simps [simp del]

definition npy_aquicksort :: "('a \<Rightarrow> 'a \<Rightarrow> bool) \<Rightarrow> 'a list \<Rightarrow> nat list" where
  "npy_aquicksort lt v =
     (let num = length v
      in stack_pop lt v [0..<num] [(0, num - 1, 2 * int (npy_get_msb num))])"


definition quicksort_sort_values :: sorter where
  "quicksort_sort_values rows = map ((!) rows) (npy_aquicksort date_less (map Date rows))"

section \<open>Inputs of the scenarios\<close>

definition day_2025_01_01 :: date where
  "day_2025_01_01 = \<lparr>year = 2025, month = 1, day = 1\<rparr>"

definition day_2026_05_10 :: date where
  "day_2026_05_10 = \<lparr>year = 2026, month = 5, day = 10\<rparr>"

definition day_2026_05_11 :: date where
  "day_2026_05_11 = \<lparr>year = 2026, month = 5, day = 11\<rparr>"

definition john_smith :: element where
  "john_smith =
     \<lparr>first_name = ''John'', second_name = ''Smith'', web_name = ''J. Smith'', team = 1\<rparr>"

definition roster_alpha :: bootstrap where
  "roster_alpha = \<lparr>teams = [(1, ''Alpha FC''), (2, ''Beta FC'')], elements = [john_smith]\<rparr>"

definition wikidata_full_name :: "binding list" where
  "wikidata_full_name =
     [\<lparr>playerLabel = Some ''John Smith'', dob = Some \<lparr>year = 1998, month = 5, day = 10\<rparr>\<rparr>]"

definition wikidata_web_name :: "binding list" where
  "wikidata_web_name =
     [\<lparr>playerLabel = Some ''J. Smith'', dob = Some \<lparr>year = 1998, month = 5, day = 10\<rparr>\<rparr>]"

definition wikidata_other :: "binding list" where
  "wikidata_other =
     [\<lparr>playerLabel = Some ''Jane Doe'', dob = Some \<lparr>year = 1997, month = 5, day = 10\<rparr>\<rparr>]"

definition fixtures_home :: "fixture_json list" where
  "fixtures_home = [\<lparr>team_h = 1, team_a = 2, kickoff_time = Some day_2026_05_10\<rparr>]"

definition fixtures_away :: "fixture_json list" where
  "fixtures_away = [\<lparr>team_h = 2, team_a = 1, kickoff_time = Some day_2026_05_10\<rparr>]"

definition fixtures_other_day :: "fixture_json list" where
  "fixtures_other_day = [\<lparr>team_h = 1, team_a = 2, kickoff_time = Some day_2026_05_11\<rparr>]"

text \<open>Two birthday fixtures, listed with the later one first.\<close>

definition fixtures_two_seasons :: "fixture_json list" where
  "fixtures_two_seasons =
     [\<lparr>team_h = 2, team_a = 1, kickoff_time = Some \<lparr>year = 2027, month = 5, day = 10\<rparr>\<rparr>,
      \<lparr>team_h = 1, team_a = 2, kickoff_time = Some day_2026_05_10\<rparr>]"

text \<open>A player of a team with id 3, which the roster's list of teams does not have.\<close>

definition loan_player :: element where
  "loan_player =
     \<lparr>first_name = ''Jane'', second_name = ''Doe'', web_name = ''Doe'', team = 3\<rparr>"

definition scenario_row :: "status \<Rightarrow> string \<Rightarrow> string \<Rightarrow> match_record" where
  "scenario_row st css opp =
     \<lparr>Date = day_2026_05_10, Status = st, CssClass = css, Player = ''John Smith'',
      Team = Some ''Alpha FC'', Turning_Age = 28, Opponent = opp\<rparr>"

text \<open>
  Eighteen players of one team who share the birthday 10 May, born 1981 to 1998, and the
  one fixture of that team on 10 May 2026.
\<close>

definition squad_names :: "string list" where
  "squad_names =
     [''Adams'', ''Baker'', ''Clark'', ''Dixon'', ''Evans'', ''Foster'', ''Gray'', ''Hughes'',
      ''Irwin'', ''Jones'', ''Kelly'', ''Lewis'', ''Mason'', ''Nolan'', ''Owen'', ''Price'',
      ''Quinn'', ''Reid'']"

definition squad_element :: "string \<Rightarrow> element" where
  "squad_element n = \<lparr>first_name = ''Twin'', second_name = n, web_name = n, team = 1\<rparr>"

definition roster_squad :: bootstrap where
  "roster_squad =
     \<lparr>teams = [(1, ''Alpha FC''), (2, ''Beta FC'')], elements = map squad_element squad_names\<rparr>"

definition wikidata_squad :: "binding list" where
  "wikidata_squad =
     map (\<lambda>(n, y). \<lparr>playerLabel = Some (''Twin '' @ n), dob = Some \<lparr>year = y, month = 5, day = 10\<rparr>\<rparr>)
       (zip squad_names [1981..1998])"

definition squad_row :: "string \<Rightarrow> int \<Rightarrow> match_record" where
  "squad_row n age =
     \<lparr>Date = day_2026_05_10, Status = UPCOMING, CssClass = ''upcoming'', Player = ''Twin '' @ n,
      Team = Some ''Alpha FC'', Turning_Age = age, Opponent = ''vs Beta FC''\<rparr>"

definition squad_rows :: "match_record list" where
  "squad_rows = map (\<lambda>(n, age). squad_row n age) (zip squad_names (rev [28..45]))"

section \<open>Properties of the model\<close>

subsection \<open>Dates\<close>

lemma date_less_irrefl: "\<not> date_less a a"
  by (simp add: date_less_def)

lemma date_le_trans: "date_le a b \<Longrightarrow> date_le b c \<Longrightarrow> date_le a c"
  unfolding date_le_def by linarith

lemma date_le_total: "date_le a b \<or> date_le b a"
  unfolding date_le_def by linarith

subsection \<open>The stable routine keeps the contract\<close>

lemma mset_insort_date: "mset (insort_date r xs) = add_mset r (mset xs)"
  by (induction xs) simp_all

lemma set_insort_date: "set (insort_date r xs) = insert r (set xs)"
  by (induction xs) auto

lemma sorted_insort_date:
  "sorted_wrt (\<lambda>a b. date_le (Date a) (Date b)) xs \<Longrightarrow>
   sorted_wrt (\<lambda>a b. date_le (Date a) (Date b)) (insort_date r xs)"
proof (induction xs)
  case Nil
  show ?case by simp
next
  case (Cons x xs)
  show ?case
  proof (cases "date_le (Date r) (Date x)")
    case True
    with Cons.prems show ?thesis
      by (auto intro: date_le_trans)
  next
    case False
    then have "date_le (Date x) (Date r)"
      using date_le_total by blast
    with False Cons show ?thesis
      by (auto simp: set_insort_date)
  qed
qed

lemma stable_sort_values_contract: "sort_contract stable_sort_values"
proof -
  have "mset (foldr insort_date rows []) = mset rows
      \<and> sorted_wrt (\<lambda>a b. date_le (Date a) (Date b)) (foldr insort_date rows [])" for rows
    by (induction rows) (simp_all add: mset_insort_date sorted_insort_date)
  then show ?thesis
    by (simp add: sort_contract_def stable_sort_values_def)
qed

lemma sort_contract_set: "sort_contract srt \<Longrightarrow> set (srt rows) = set rows"
  by (metis sort_contract_def set_mset_mset)

subsection \<open>Dictionaries\<close>

lemma map_of_dict_of:
  "map_of (dict_of kvs d) k =
     (case map_of (rev kvs) k of None \<Rightarrow> map_of d k | Some v \<Rightarrow> Some v)"
proof (induction kvs arbitrary: d)
  case Nil
  show ?case by simp
next
  case (Cons kv kvs)
  obtain k' v' where kv: "kv = (k', v')" by (cases kv)
  show ?case
    by (simp add: kv Cons.IH update_conv' map_add_def split: option.splits)
qed

lemma teams_dict_None: "map_of (teams_dict data) k = None \<longleftrightarrow> k \<notin> fst ` set (teams data)"
  by (simp add: teams_dict_def map_of_dict_of map_of_eq_None_iff split: option.splits)
     (metis map_of_eq_None_iff option.distinct(1) set_rev)

subsection \<open>The loops as comprehensions\<close>

lemma fixture_loop_append:
  "fixture_loop today p d ms acc =
     acc @ map (match_row today p d)
            (filter (\<lambda>m. month (kickoff_date m) = month d \<and> day (kickoff_date m) = day d) ms)"
  by (induction ms arbitrary: acc) simp_all

lemma player_loop_append:
  "player_loop today dm fx ps acc =
     acc @ concat (map (\<lambda>p. case lookup_dob dm p of None \<Rightarrow> []
                          | Some d \<Rightarrow> map (match_row today p d)
                              (filter (\<lambda>m. month (kickoff_date m) = month d \<and>
                                           day (kickoff_date m) = day d)
                                 (team_fix fx (Team_Name p)))) ps)"
proof (induction ps arbitrary: acc)
  case Nil
  show ?case by simp
next
  case (Cons p ps)
  show ?case
  proof (cases "lookup_dob dm p")
    case None
    then show ?thesis by (simp add: Cons.IH)
  next
    case (Some d)
    then show ?thesis
      by (simp add: Cons.IH fixture_loop_append)
  qed
qed

lemma in_player_loop:
  "r \<in> set (player_loop today dm fx ps []) \<longleftrightarrow>
     (\<exists>p d m. p \<in> set ps \<and> lookup_dob dm p = Some d \<and> m \<in> set (team_fix fx (Team_Name p)) \<and>
        month (kickoff_date m) = month d \<and> day (kickoff_date m) = day d \<and>
        r = match_row today p d m)"
proof
  assume "r \<in> set (player_loop today dm fx ps [])"
  then obtain p where p: "p \<in> set ps"
    and r: "r \<in> set (case lookup_dob dm p of None \<Rightarrow> []
                | Some d \<Rightarrow> map (match_row today p d)
                    (filter (\<lambda>m. month (kickoff_date m) = month d \<and>
                                 day (kickoff_date m) = day d)
                       (team_fix fx (Team_Name p))))"
    by (auto simp: player_loop_append)
  from r obtain d where d: "lookup_dob dm p = Some d"
    by (cases "lookup_dob dm p") auto
  with r obtain m where "m \<in> set (team_fix fx (Team_Name p))"
    "month (kickoff_date m) = month d" "day (kickoff_date m) = day d"
    "r = match_row today p d m"
    by auto
  with p d show "\<exists>p d m. p \<in> set ps \<and> lookup_dob dm p = Some d \<and>
      m \<in> set (team_fix fx (Team_Name p)) \<and>
      month (kickoff_date m) = month d \<and> day (kickoff_date m) = day d \<and>
      r = match_row today p d m"
    by blast
next
  assume "\<exists>p d m. p \<in> set ps \<and> lookup_dob dm p = Some d \<and>
      m \<in> set (team_fix fx (Team_Name p)) \<and>
      month (kickoff_date m) = month d \<and> day (kickoff_date m) = day d \<and>
      r = match_row today p d m"
  then obtain p d m where "p \<in> set ps" "lookup_dob dm p = Some d"
    "m \<in> set (team_fix fx (Team_Name p))"
    "month (kickoff_date m) = month d" "day (kickoff_date m) = day d"
    "r = match_row today p d m"
    by blast
  then show "r \<in> set (player_loop today dm fx ps [])"
    by (force simp: player_loop_append)
qed

subsection \<open>Where the rows of the returned frame come from\<close>

lemma get_data_cases:
  assumes "get_data srt today R W F = Inr df"
  shows "df = [] \<or> (\<exists>data fix_resp. R = Inr data \<and> F = Inr fix_resp \<and>
            matches_found today data (get_wikidata_birthdays W) fix_resp \<noteq> [] \<and>
            df = srt (matches_found today data (get_wikidata_birthdays W) fix_resp))"
  using assms
  by (auto simp: get_data_def sort_values_def Let_def split: sum.splits if_splits)

lemma get_data_row:
  assumes "sort_contract srt" and "get_data srt today R W F = Inr df" and "r \<in> set df"
  shows "\<exists>data fix_resp p p_dob m. R = Inr data \<and> F = Inr fix_resp \<and>
           p \<in> set (players_frame data) \<and>
           lookup_dob (get_wikidata_birthdays W) p = Some p_dob \<and>
           m \<in> set (team_fix (fixtures_frame data fix_resp) (Team_Name p)) \<and>
           month (kickoff_date m) = month p_dob \<and> day (kickoff_date m) = day p_dob \<and>
           r = match_row today p p_dob m"
proof -
  from get_data_cases [OF assms(2)] assms(3)
  obtain data fix_resp where *: "R = Inr data" "F = Inr fix_resp"
    "df = srt (matches_found today data (get_wikidata_birthdays W) fix_resp)"
    by auto
  with assms(1,3) have "r \<in> set (matches_found today data (get_wikidata_birthdays W) fix_resp)"
    by (simp add: sort_contract_set)
  then show ?thesis
    unfolding matches_found_def in_player_loop using * by blast
qed

lemma match_row_fields:
  "Date (match_row today p d m) = kickoff_date m"
  "Player (match_row today p d m) = full_name p"
  "Team (match_row today p d m) = Team_Name p"
  "Turning_Age (match_row today p d m) = year (kickoff_date m) - year d"
  "Status (match_row today p d m) = (if date_less (kickoff_date m) today then PLAYED else UPCOMING)"
  "CssClass (match_row today p d m) =
     (if date_less (kickoff_date m) today then ''played'' else ''upcoming'')"
  "Opponent (match_row today p d m) =
     (if cell_eq (Team_Name p) (Home m) then ''vs '' @ cell_str (Away m)
      else ''@ '' @ cell_str (Home m))"
  by (simp_all add: match_row_def Let_def)

subsection \<open>The scenarios, evaluated\<close>

lemma scenario_home_rows:
  "get_data stable_sort_values day_2025_01_01 (Inr roster_alpha) (Inr wikidata_full_name)
     (Inr fixtures_home) = Inr [scenario_row UPCOMING ''upcoming'' ''vs Beta FC'']"
  by code_simp

lemma scenario_today_rows:
  "get_data stable_sort_values day_2026_05_10 (Inr roster_alpha) (Inr wikidata_full_name)
     (Inr fixtures_home) = Inr [scenario_row UPCOMING ''upcoming'' ''vs Beta FC'']"
  by code_simp

lemma scenario_played_rows:
  "get_data stable_sort_values day_2026_05_11 (Inr roster_alpha) (Inr wikidata_full_name)
     (Inr fixtures_home) = Inr [scenario_row PLAYED ''played'' ''vs Beta FC'']"
  by code_simp

subsection \<open>Cells of the frames\<close>

lemma cell_eq_iff: "cell_eq a b \<longleftrightarrow> (\<exists>x. a = Some x \<and> b = Some x)"
  by (auto simp: cell_eq_def split: option.splits)

subsection \<open>Players that contribute no row\<close>

lemma team_fix_None: "team_fix fixtures None = []"
  by (simp add: team_fix_def cell_eq_def split: option.splits)

lemma teams_dict_elements [simp]: "teams_dict (data\<lparr>elements := es\<rparr>) = teams_dict data"
  by (simp add: teams_dict_def)

lemma fixtures_frame_elements [simp]:
  "fixtures_frame (data\<lparr>elements := es\<rparr>) fix_resp = fixtures_frame data fix_resp"
  by (simp add: fixtures_frame_def)

lemma matches_found_skip:
  assumes "lookup_dob dob_map (player_row (teams_dict data) e) = None
         \<or> Team_Name (player_row (teams_dict data) e) = None"
  shows "matches_found today (data\<lparr>elements := es1 @ e # es2\<rparr>) dob_map fix_resp =
         matches_found today (data\<lparr>elements := es1 @ es2\<rparr>) dob_map fix_resp"
  using assms
  by (auto simp: matches_found_def players_frame_def player_loop_append team_fix_None
      split: option.splits)

lemma get_data_skip:
  assumes "\<And>fix_resp.
      matches_found today (data\<lparr>elements := es1 @ e # es2\<rparr>) (get_wikidata_birthdays W) fix_resp =
      matches_found today (data\<lparr>elements := es1 @ es2\<rparr>) (get_wikidata_birthdays W) fix_resp"
      and "es1 @ es2 \<noteq> []"
  shows "get_data srt today (Inr (data\<lparr>elements := es1 @ e # es2\<rparr>)) W F =
         get_data srt today (Inr (data\<lparr>elements := es1 @ es2\<rparr>)) W F"
  using assms by (auto simp: get_data_def Let_def split: sum.splits)

subsection \<open>Lookup order, and players passed over\<close>

text \<open>
  The birth date of a player is looked up under the lowered and stripped full name (first
  name, a space, second name). If that key is in the index, its date is the result; only
  if it is absent is the lowered and stripped \<open>web_name\<close> looked up. If neither key
  is in the index the player adds no row to the list of matches, and with other players
  left in the roster the whole outcome of \<open>get_data\<close> is what it is without that
  player.
\<close>

lemma full_name_then_web_name:
  "(map_of dob_map (strip (lower (first_name e @ '' '' @ second_name e))) = Some d \<longrightarrow>
      lookup_dob dob_map (player_row teams_d e) = Some d) \<and>
   (map_of dob_map (strip (lower (first_name e @ '' '' @ second_name e))) = None \<longrightarrow>
      lookup_dob dob_map (player_row teams_d e) = map_of dob_map (strip (lower (web_name e)))) \<and>
   (map_of dob_map (strip (lower (first_name e @ '' '' @ second_name e))) = None \<and>
    map_of dob_map (strip (lower (web_name e))) = None \<longrightarrow>
      matches_found today (data\<lparr>elements := es1 @ e # es2\<rparr>) dob_map fix_resp =
      matches_found today (data\<lparr>elements := es1 @ es2\<rparr>) dob_map fix_resp) \<and>
   (map_of dob_map (strip (lower (first_name e @ '' '' @ second_name e))) = None \<and>
    map_of dob_map (strip (lower (web_name e))) = None \<and>
    dob_map = get_wikidata_birthdays W \<and> es1 @ es2 \<noteq> [] \<longrightarrow>
      get_data srt today (Inr (data\<lparr>elements := es1 @ e # es2\<rparr>)) W F =
      get_data srt today (Inr (data\<lparr>elements := es1 @ es2\<rparr>)) W F)"
proof -
  have key: "match_key (player_row t e) = strip (lower (first_name e @ '' '' @ second_name e))"
    and web: "web_name (player_row t e) = web_name e" for t
    by (simp_all add: player_row_def Let_def element.defs)
  have "map_of dob_map (strip (lower (first_name e @ '' '' @ second_name e))) = None \<and>
      map_of dob_map (strip (lower (web_name e))) = None \<longrightarrow>
      lookup_dob dob_map (player_row (teams_dict data) e) = None"
    by (simp add: lookup_dob_def key web)
  then have skip: "map_of dob_map (strip (lower (first_name e @ '' '' @ second_name e))) = None \<and>
      map_of dob_map (strip (lower (web_name e))) = None \<longrightarrow>
      matches_found today (data\<lparr>elements := es1 @ e # es2\<rparr>) dob_map fr =
      matches_found today (data\<lparr>elements := es1 @ es2\<rparr>) dob_map fr" for fr
    using matches_found_skip [of dob_map data e today es1 es2 fr] by blast
  have "map_of dob_map (strip (lower (first_name e @ '' '' @ second_name e))) = None \<and>
      map_of dob_map (strip (lower (web_name e))) = None \<and>
      dob_map = get_wikidata_birthdays W \<and> es1 @ es2 \<noteq> [] \<longrightarrow>
      get_data srt today (Inr (data\<lparr>elements := es1 @ e # es2\<rparr>)) W F =
      get_data srt today (Inr (data\<lparr>elements := es1 @ es2\<rparr>)) W F"
    using skip get_data_skip [where today = today and data = data and ?es1.0 = es1 and e = e
        and ?es2.0 = es2 and W = W and srt = srt and F = F] by blast
  then show ?thesis
    using skip [of fix_resp] by (simp add: lookup_dob_def key web)
qed

lemma full_name_then_web_name_example:
  "map_of (get_wikidata_birthdays (Inr wikidata_full_name)) (strip (lower ''John Smith''))
     = Some \<lparr>year = 1998, month = 5, day = 10\<rparr> \<and>
   lookup_dob (get_wikidata_birthdays (Inr wikidata_full_name))
     (player_row (teams_dict roster_alpha) john_smith) = Some \<lparr>year = 1998, month = 5, day = 10\<rparr> \<and>
   map_of (get_wikidata_birthdays (Inr wikidata_web_name)) (strip (lower ''John Smith'')) = None \<and>
   lookup_dob (get_wikidata_birthdays (Inr wikidata_web_name))
     (player_row (teams_dict roster_alpha) john_smith) = Some \<lparr>year = 1998, month = 5, day = 10\<rparr> \<and>
   map_of (get_wikidata_birthdays (Inr wikidata_full_name)) (strip (lower ''Jane Doe'')) = None \<and>
   map_of (get_wikidata_birthdays (Inr wikidata_full_name)) (strip (lower ''Doe'')) = None \<and>
   matches_found day_2025_01_01 (roster_alpha\<lparr>elements := [john_smith] @ loan_player # []\<rparr>)
     (get_wikidata_birthdays (Inr wikidata_full_name)) fixtures_home =
     [scenario_row UPCOMING ''upcoming'' ''vs Beta FC''] \<and>
   get_data stable_sort_values day_2025_01_01
     (Inr (roster_alpha\<lparr>elements := [john_smith] @ loan_player # []\<rparr>))
     (Inr wikidata_full_name) (Inr fixtures_home) =
     Inr [scenario_row UPCOMING ''upcoming'' ''vs Beta FC'']"
proof -
  have names: "first_name john_smith @ '' '' @ second_name john_smith = ''John Smith''"
    "web_name john_smith = ''J. Smith''"
    "first_name loan_player @ '' '' @ second_name loan_player = ''Jane Doe''"
    "web_name loan_player = ''Doe''"
    by (simp_all add: john_smith_def loan_player_def)
  have full: "map_of (get_wikidata_birthdays (Inr wikidata_full_name))
      (strip (lower ''John Smith'')) = Some \<lparr>year = 1998, month = 5, day = 10\<rparr>"
    by code_simp
  have web: "map_of (get_wikidata_birthdays (Inr wikidata_web_name))
      (strip (lower ''John Smith'')) = None"
    "map_of (get_wikidata_birthdays (Inr wikidata_web_name))
      (strip (lower ''J. Smith'')) = Some \<lparr>year = 1998, month = 5, day = 10\<rparr>"
    by code_simp+
  have jane: "map_of (get_wikidata_birthdays (Inr wikidata_full_name))
      (strip (lower ''Jane Doe'')) = None"
    "map_of (get_wikidata_birthdays (Inr wikidata_full_name)) (strip (lower ''Doe'')) = None"
    by code_simp+
  have alone: "matches_found day_2025_01_01 (roster_alpha\<lparr>elements := [john_smith] @ []\<rparr>)
      (get_wikidata_birthdays (Inr wikidata_full_name)) fixtures_home =
      [scenario_row UPCOMING ''upcoming'' ''vs Beta FC'']"
    "get_data stable_sort_values day_2025_01_01
      (Inr (roster_alpha\<lparr>elements := [john_smith] @ []\<rparr>))
      (Inr wikidata_full_name) (Inr fixtures_home) =
      Inr [scenario_row UPCOMING ''upcoming'' ''vs Beta FC'']"
    by code_simp+
  note john = full_name_then_web_name [where e = john_smith
      and teams_d = "teams_dict roster_alpha", unfolded names]
  from john [where dob_map = "get_wikidata_birthdays (Inr wikidata_full_name)"
      and d = "\<lparr>year = 1998, month = 5, day = 10\<rparr>"] full
  have 1: "lookup_dob (get_wikidata_birthdays (Inr wikidata_full_name))
      (player_row (teams_dict roster_alpha) john_smith) = Some \<lparr>year = 1998, month = 5, day = 10\<rparr>"
    by blast
  from john [where dob_map = "get_wikidata_birthdays (Inr wikidata_web_name)"] web
  have 2: "lookup_dob (get_wikidata_birthdays (Inr wikidata_web_name))
      (player_row (teams_dict roster_alpha) john_smith) = Some \<lparr>year = 1998, month = 5, day = 10\<rparr>"
    by simp
  note skip = full_name_then_web_name [where e = loan_player
      and dob_map = "get_wikidata_birthdays (Inr wikidata_full_name)"
      and W = "Inr wikidata_full_name" and data = roster_alpha and today = day_2025_01_01
      and ?es1.0 = "[john_smith]" and ?es2.0 = "[]" and fix_resp = fixtures_home
      and srt = stable_sort_values and F = "Inr fixtures_home", unfolded names]
  from skip jane alone(1)
  have 3: "matches_found day_2025_01_01
      (roster_alpha\<lparr>elements := [john_smith] @ loan_player # []\<rparr>)
      (get_wikidata_birthdays (Inr wikidata_full_name)) fixtures_home =
      [scenario_row UPCOMING ''upcoming'' ''vs Beta FC'']"
    by simp
  from skip jane alone(2)
  have 4: "get_data stable_sort_values day_2025_01_01
      (Inr (roster_alpha\<lparr>elements := [john_smith] @ loan_player # []\<rparr>))
      (Inr wikidata_full_name) (Inr fixtures_home) =
      Inr [scenario_row UPCOMING ''upcoming'' ''vs Beta FC'']"
    by simp
  show ?thesis
    using full web(1) jane 1 2 3 4 by (intro conjI)
qed

text \<open>
  A player whose team id is not among the ids of the roster's teams has no team name
  (\<open>None\<close>, the NaN of the frame), no fixture is selected for that name, the player adds
  no row to the list of matches, and with other players left in the roster the whole
  outcome of \<open>get_data\<close> is what it is without that player.
\<close>

lemma unknown_team_id_no_records:
  assumes "team e \<notin> fst ` set (teams data)"
  shows "Team_Name (player_row (teams_dict data) e) = None \<and>
         team_fix fixtures (Team_Name (player_row (teams_dict data) e)) = [] \<and>
         matches_found today (data\<lparr>elements := es1 @ e # es2\<rparr>) dob_map fix_resp =
         matches_found today (data\<lparr>elements := es1 @ es2\<rparr>) dob_map fix_resp \<and>
         (es1 @ es2 \<noteq> [] \<longrightarrow>
            get_data srt today (Inr (data\<lparr>elements := es1 @ e # es2\<rparr>)) W F =
            get_data srt today (Inr (data\<lparr>elements := es1 @ es2\<rparr>)) W F)"
proof -
  have none: "Team_Name (player_row (teams_dict data) e) = None"
    using assms by (simp add: player_row_def Let_def element.defs teams_dict_None)
  then have skip: "matches_found today (data\<lparr>elements := es1 @ e # es2\<rparr>) dm fr =
      matches_found today (data\<lparr>elements := es1 @ es2\<rparr>) dm fr" for dm fr
    using matches_found_skip [of dm data e today es1 es2 fr] by blast
  have "es1 @ es2 \<noteq> [] \<longrightarrow>
      get_data srt today (Inr (data\<lparr>elements := es1 @ e # es2\<rparr>)) W F =
      get_data srt today (Inr (data\<lparr>elements := es1 @ es2\<rparr>)) W F"
    using skip get_data_skip [where today = today and data = data and ?es1.0 = es1 and e = e
        and ?es2.0 = es2 and W = W and srt = srt and F = F] by blast
  then show ?thesis
    using none skip by (simp add: team_fix_None)
qed

lemma unknown_team_id_no_records_example:
  "team loan_player \<notin> fst ` set (teams roster_alpha) \<and>
   Team_Name (player_row (teams_dict roster_alpha) loan_player) = None \<and>
   matches_found day_2025_01_01 (roster_alpha\<lparr>elements := [john_smith] @ loan_player # []\<rparr>)
     (get_wikidata_birthdays (Inr (wikidata_full_name @ wikidata_other))) fixtures_home =
     [scenario_row UPCOMING ''upcoming'' ''vs Beta FC''] \<and>
   get_data stable_sort_values day_2025_01_01
     (Inr (roster_alpha\<lparr>elements := [john_smith] @ loan_player # []\<rparr>))
     (Inr (wikidata_full_name @ wikidata_other)) (Inr fixtures_home) =
     Inr [scenario_row UPCOMING ''upcoming'' ''vs Beta FC'']"
proof -
  have id: "team loan_player \<notin> fst ` set (teams roster_alpha)"
    by (simp add: loan_player_def roster_alpha_def)
  have alone: "matches_found day_2025_01_01 (roster_alpha\<lparr>elements := [john_smith] @ []\<rparr>)
      (get_wikidata_birthdays (Inr (wikidata_full_name @ wikidata_other))) fixtures_home =
      [scenario_row UPCOMING ''upcoming'' ''vs Beta FC'']"
    "get_data stable_sort_values day_2025_01_01
      (Inr (roster_alpha\<lparr>elements := [john_smith] @ []\<rparr>))
      (Inr (wikidata_full_name @ wikidata_other)) (Inr fixtures_home) =
      Inr [scenario_row UPCOMING ''upcoming'' ''vs Beta FC'']"
    by code_simp+
  note skip = unknown_team_id_no_records [OF id, where today = day_2025_01_01
      and ?es1.0 = "[john_smith]" and ?es2.0 = "[]"
      and dob_map = "get_wikidata_birthdays (Inr (wikidata_full_name @ wikidata_other))"
      and fix_resp = fixtures_home and srt = stable_sort_values
      and W = "Inr (wikidata_full_name @ wikidata_other)" and F = "Inr fixtures_home"]
  from skip alone id show ?thesis
    by simp
qed

subsection \<open>The sort of an empty list of matches\<close>

lemma script_raises_without_matches:
  assumes "elements data \<noteq> []" and "get_wikidata_birthdays W \<noteq> []" and "fix_resp \<noteq> []"
    and "matches_found today data (get_wikidata_birthdays W) fix_resp = []"
  shows "script srt today (Inr data) W (Inr fix_resp) = Inl (KeyError ''Date'')"
  using assms by (simp add: script_def get_data_def sort_values_def Let_def)

subsection \<open>The stable routine is stable\<close>

lemma date_le_refl: "date_le a a"
  by (simp add: date_le_def)

lemma filter_insort_date_same:
  assumes "sorted_wrt (\<lambda>a b. date_le (Date a) (Date b)) xs"
  shows "filter (\<lambda>y. Date y = Date r) (insort_date r xs) = r # filter (\<lambda>y. Date y = Date r) xs"
  using assms
proof (induction xs)
  case Nil
  show ?case by simp
next
  case (Cons x xs)
  show ?case
  proof (cases "date_le (Date r) (Date x)")
    case True
    then show ?thesis by simp
  next
    case False
    then have "Date x \<noteq> Date r"
      using date_le_refl by metis
    with False Cons show ?thesis by simp
  qed
qed

lemma filter_insort_date_other:
  "Date r \<noteq> d \<Longrightarrow>
   filter (\<lambda>y. Date y = d) (insort_date r xs) = filter (\<lambda>y. Date y = d) xs"
  by (induction xs) simp_all

lemma stable_sort_values_stable:
  "filter (\<lambda>y. Date y = d) (stable_sort_values rows) = filter (\<lambda>y. Date y = d) rows"
proof (induction rows)
  case Nil
  show ?case by (simp add: stable_sort_values_def)
next
  case (Cons r rows)
  have sorted: "sorted_wrt (\<lambda>a b. date_le (Date a) (Date b)) (stable_sort_values rows)"
    using stable_sort_values_contract by (simp add: sort_contract_def)
  have step: "stable_sort_values (r # rows) = insort_date r (stable_sort_values rows)"
    by (simp add: stable_sort_values_def)
  show ?case
  proof (cases "Date r = d")
    case True
    with filter_insort_date_same [OF sorted, of r] Cons show ?thesis
      by (simp add: step)
  next
    case False
    with filter_insort_date_other [of r d] Cons show ?thesis
      by (simp add: step)
  qed
qed

subsection \<open>The squad of eighteen, evaluated\<close>

lemma squad_generated:
  "matches_found day_2025_01_01 roster_squad (get_wikidata_birthdays (Inr wikidata_squad))
     fixtures_home = squad_rows"
  by code_simp

lemma squad_quicksort:
  "quicksort_sort_values squad_rows =
     map ((!) squad_rows) [0, 15, 14, 13, 12, 11, 10, 9, 8, 7, 6, 5, 4, 3, 2, 1, 16, 17]"
  by code_simp

lemma squad_stable: "stable_sort_values squad_rows = squad_rows"
  by code_simp

lemma squad_get_data:
  "get_data srt day_2025_01_01 (Inr roster_squad) (Inr wikidata_squad) (Inr fixtures_home) =
     Inr (srt squad_rows)"
proof -
  have "elements roster_squad \<noteq> []" "get_wikidata_birthdays (Inr wikidata_squad) \<noteq> []"
    "fixtures_home \<noteq> []" "squad_rows \<noteq> []"
    by code_simp+
  then show ?thesis
    by (simp add: get_data_def sort_values_def squad_generated Let_def)
qed

section \<open>The claims\<close>

text \<open>
  C1. All three requests succeed (one player with a known birthday, one fixture of the
  player's team on another day), and the matching loop appends nothing. Then line 120 sorts
  a frame that has no \<open>Date\<close> column: \<open>get_data\<close> raises \<open>KeyError\<close>, for every
  sorting routine, and the script ends there, before any page is built or written.
\<close>

theorem script_raises_on_empty_matches:
  "matches_found day_2025_01_01 roster_alpha (get_wikidata_birthdays (Inr wikidata_full_name))
     fixtures_other_day = [] \<and>
   get_data srt day_2025_01_01 (Inr roster_alpha) (Inr wikidata_full_name)
     (Inr fixtures_other_day) = Inl (KeyError ''Date'') \<and>
   script srt day_2025_01_01 (Inr roster_alpha) (Inr wikidata_full_name)
     (Inr fixtures_other_day) = Inl (KeyError ''Date'')"
proof -
  have none: "matches_found day_2025_01_01 roster_alpha
      (get_wikidata_birthdays (Inr wikidata_full_name)) fixtures_other_day = []"
    by code_simp
  have ne: "elements roster_alpha \<noteq> []" "get_wikidata_birthdays (Inr wikidata_full_name) \<noteq> []"
    "fixtures_other_day \<noteq> []"
    by code_simp+
  from script_raises_without_matches [OF ne none] none ne show ?thesis
    by (simp add: script_def get_data_def sort_values_def Let_def split: sum.splits)
qed

text \<open>
  C2, as amended. Whenever \<open>get_data\<close> returns a frame, its rows are in
  non-decreasing order of date, and a frame that is not empty holds exactly the rows the
  matching loop generated, each as often as it was generated. This is all the sort is
  relied on for; the order among rows of equal date is the sorting routine's.
\<close>

theorem get_data_sorted_permutation:
  assumes "sort_contract srt" and "get_data srt today R W F = Inr df"
  shows "sorted_wrt (\<lambda>a b. date_le (Date a) (Date b)) df \<and>
         (df = [] \<or>
          (\<exists>data fix_resp. R = Inr data \<and> F = Inr fix_resp \<and>
             mset df = mset (matches_found today data (get_wikidata_birthdays W) fix_resp)))"
proof -
  from get_data_cases [OF assms(2)] show ?thesis
  proof
    assume "df = []"
    then show ?thesis by simp
  next
    assume "\<exists>data fix_resp. R = Inr data \<and> F = Inr fix_resp \<and>
        matches_found today data (get_wikidata_birthdays W) fix_resp \<noteq> [] \<and>
        df = srt (matches_found today data (get_wikidata_birthdays W) fix_resp)"
    then obtain data fix_resp where *: "R = Inr data" "F = Inr fix_resp"
      "df = srt (matches_found today data (get_wikidata_birthdays W) fix_resp)"
      by blast
    from assms(1) have "sorted_wrt (\<lambda>a b. date_le (Date a) (Date b)) df"
      and "mset df = mset (matches_found today data (get_wikidata_birthdays W) fix_resp)"
      unfolding *(3) sort_contract_def by blast+
    with * show ?thesis by blast
  qed
qed

theorem get_data_sorted_permutation_witness:
  "sort_contract stable_sort_values \<and>
   matches_found day_2025_01_01 roster_alpha (get_wikidata_birthdays (Inr wikidata_full_name))
     fixtures_two_seasons =
     [(scenario_row UPCOMING ''upcoming'' ''@ Beta FC'')
        \<lparr>Date := \<lparr>year = 2027, month = 5, day = 10\<rparr>, Turning_Age := 29\<rparr>,
      scenario_row UPCOMING ''upcoming'' ''vs Beta FC''] \<and>
   get_data stable_sort_values day_2025_01_01 (Inr roster_alpha) (Inr wikidata_full_name)
     (Inr fixtures_two_seasons) =
     Inr [scenario_row UPCOMING ''upcoming'' ''vs Beta FC'',
          (scenario_row UPCOMING ''upcoming'' ''@ Beta FC'')
            \<lparr>Date := \<lparr>year = 2027, month = 5, day = 10\<rparr>, Turning_Age := 29\<rparr>] \<and>
   date_le (Date (scenario_row UPCOMING ''upcoming'' ''vs Beta FC''))
     \<lparr>year = 2027, month = 5, day = 10\<rparr>"
proof -
  let ?r1 = "scenario_row UPCOMING ''upcoming'' ''vs Beta FC''"
  let ?r2 = "(scenario_row UPCOMING ''upcoming'' ''@ Beta FC'')
      \<lparr>Date := \<lparr>year = 2027, month = 5, day = 10\<rparr>, Turning_Age := 29\<rparr>"
  have gen: "matches_found day_2025_01_01 roster_alpha
      (get_wikidata_birthdays (Inr wikidata_full_name)) fixtures_two_seasons = [?r2, ?r1]"
    by code_simp
  have rows: "get_data stable_sort_values day_2025_01_01 (Inr roster_alpha)
      (Inr wikidata_full_name) (Inr fixtures_two_seasons) = Inr [?r1, ?r2]"
    by code_simp
  from get_data_sorted_permutation [OF stable_sort_values_contract rows]
  have "sorted_wrt (\<lambda>a b. date_le (Date a) (Date b)) [?r1, ?r2]"
    by blast
  then have "date_le (Date ?r1) \<lparr>year = 2027, month = 5, day = 10\<rparr>"
    by simp
  then show ?thesis
    using stable_sort_values_contract gen rows by blast
qed

text \<open>
  C2, counterexample. The claim as stated, that the returned rows are the generated rows in ascending order of
  date with rows of equal date in the order of their generation, fails for the routine
  pandas uses: on eighteen rows of one date, generated in the order of the roster, the
  quicksort returns the second to the sixteenth row in reverse.
\<close>

theorem quicksort_reorders_equal_dates:
  "matches_found day_2025_01_01 roster_squad (get_wikidata_birthdays (Inr wikidata_squad))
     fixtures_home = squad_rows \<and>
   map Date squad_rows = replicate 18 day_2026_05_10 \<and>
   map Player squad_rows =
     [''Twin Adams'', ''Twin Baker'', ''Twin Clark'', ''Twin Dixon'', ''Twin Evans'',
      ''Twin Foster'', ''Twin Gray'', ''Twin Hughes'', ''Twin Irwin'', ''Twin Jones'',
      ''Twin Kelly'', ''Twin Lewis'', ''Twin Mason'', ''Twin Nolan'', ''Twin Owen'',
      ''Twin Price'', ''Twin Quinn'', ''Twin Reid''] \<and>
   map_sum id (map Player)
     (get_data quicksort_sort_values day_2025_01_01 (Inr roster_squad) (Inr wikidata_squad)
        (Inr fixtures_home)) =
     Inr [''Twin Adams'', ''Twin Price'', ''Twin Owen'', ''Twin Nolan'', ''Twin Mason'',
      ''Twin Lewis'', ''Twin Kelly'', ''Twin Jones'', ''Twin Irwin'', ''Twin Hughes'',
      ''Twin Gray'', ''Twin Foster'', ''Twin Evans'', ''Twin Dixon'', ''Twin Clark'',
      ''Twin Baker'', ''Twin Quinn'', ''Twin Reid''] \<and>
   get_data quicksort_sort_values day_2025_01_01 (Inr roster_squad) (Inr wikidata_squad)
     (Inr fixtures_home) \<noteq>
   Inr (stable_sort_values (matches_found day_2025_01_01 roster_squad
      (get_wikidata_birthdays (Inr wikidata_squad)) fixtures_home))"
proof -
  have dates: "map Date squad_rows = replicate 18 day_2026_05_10"
    by code_simp
  have players: "map Player squad_rows =
     [''Twin Adams'', ''Twin Baker'', ''Twin Clark'', ''Twin Dixon'', ''Twin Evans'',
      ''Twin Foster'', ''Twin Gray'', ''Twin Hughes'', ''Twin Irwin'', ''Twin Jones'',
      ''Twin Kelly'', ''Twin Lewis'', ''Twin Mason'', ''Twin Nolan'', ''Twin Owen'',
      ''Twin Price'', ''Twin Quinn'', ''Twin Reid'']"
    by code_simp
  have sorted: "map Player
      (map ((!) squad_rows) [0, 15, 14, 13, 12, 11, 10, 9, 8, 7, 6, 5, 4, 3, 2, 1, 16, 17]) =
     [''Twin Adams'', ''Twin Price'', ''Twin Owen'', ''Twin Nolan'', ''Twin Mason'',
      ''Twin Lewis'', ''Twin Kelly'', ''Twin Jones'', ''Twin Irwin'', ''Twin Hughes'',
      ''Twin Gray'', ''Twin Foster'', ''Twin Evans'', ''Twin Dixon'', ''Twin Clark'',
      ''Twin Baker'', ''Twin Quinn'', ''Twin Reid'']"
    by code_simp
  have differ: "map ((!) squad_rows) [0, 15, 14, 13, 12, 11, 10, 9, 8, 7, 6, 5, 4, 3, 2, 1, 16, 17]
      \<noteq> squad_rows"
  proof
    assume "map ((!) squad_rows) [0, 15, 14, 13, 12, 11, 10, 9, 8, 7, 6, 5, 4, 3, 2, 1, 16, 17]
      = squad_rows"
    then have "map Player
        (map ((!) squad_rows) [0, 15, 14, 13, 12, 11, 10, 9, 8, 7, 6, 5, 4, 3, 2, 1, 16, 17])
      = map Player squad_rows"
      by (rule arg_cong)
    then show False
      unfolding sorted players by simp
  qed
  have rows: "get_data quicksort_sort_values day_2025_01_01 (Inr roster_squad)
      (Inr wikidata_squad) (Inr fixtures_home) =
      Inr (map ((!) squad_rows) [0, 15, 14, 13, 12, 11, 10, 9, 8, 7, 6, 5, 4, 3, 2, 1, 16, 17])"
    by (simp only: squad_get_data squad_quicksort)
  have names: "map_sum id (map Player)
      (get_data quicksort_sort_values day_2025_01_01 (Inr roster_squad) (Inr wikidata_squad)
        (Inr fixtures_home)) =
     Inr [''Twin Adams'', ''Twin Price'', ''Twin Owen'', ''Twin Nolan'', ''Twin Mason'',
      ''Twin Lewis'', ''Twin Kelly'', ''Twin Jones'', ''Twin Irwin'', ''Twin Hughes'',
      ''Twin Gray'', ''Twin Foster'', ''Twin Evans'', ''Twin Dixon'', ''Twin Clark'',
      ''Twin Baker'', ''Twin Quinn'', ''Twin Reid'']"
    unfolding rows map_sum.simps sorted by (rule refl)
  have unstable: "get_data quicksort_sort_values day_2025_01_01 (Inr roster_squad)
      (Inr wikidata_squad) (Inr fixtures_home) \<noteq>
    Inr (stable_sort_values (matches_found day_2025_01_01 roster_squad
      (get_wikidata_birthdays (Inr wikidata_squad)) fixtures_home))"
    unfolding rows squad_generated squad_stable
    by (simp only: sum.inject differ not_False_eq_True)
  show ?thesis
    using squad_generated dates players names unstable by (intro conjI)
qed

text \<open>
  C3. Every record of the returned frame was made from a player of the roster whose birth
  date was found in the birthday index, and the month and the day of the record's date are
  the month and the day of that birth date.
\<close>

theorem record_date_is_birthday:
  assumes "sort_contract srt" and "get_data srt today R W F = Inr df" and "r \<in> set df"
  shows "\<exists>data p p_dob. R = Inr data \<and> p \<in> set (players_frame data) \<and>
           Player r = full_name p \<and> Team r = Team_Name p \<and>
           lookup_dob (get_wikidata_birthdays W) p = Some p_dob \<and>
           month (Date r) = month p_dob \<and> day (Date r) = day p_dob"
proof -
  from get_data_row [OF assms] obtain data fix_resp p p_dob m
    where "R = Inr data" "p \<in> set (players_frame data)"
      "lookup_dob (get_wikidata_birthdays W) p = Some p_dob"
      "month (kickoff_date m) = month p_dob" "day (kickoff_date m) = day p_dob"
      "r = match_row today p p_dob m"
    by blast
  then show ?thesis
    by (auto simp: match_row_fields)
qed

theorem record_date_is_birthday_witness:
  "sort_contract stable_sort_values \<and>
   get_data stable_sort_values day_2025_01_01 (Inr roster_alpha) (Inr wikidata_web_name)
     (Inr fixtures_away) = Inr [scenario_row UPCOMING ''upcoming'' ''@ Beta FC''] \<and>
   (\<exists>p p_dob. p \<in> set (players_frame roster_alpha) \<and> full_name p = ''John Smith'' \<and>
      lookup_dob (get_wikidata_birthdays (Inr wikidata_web_name)) p = Some p_dob \<and>
      month p_dob = 5 \<and> day p_dob = 10)"
proof -
  let ?r = "scenario_row UPCOMING ''upcoming'' ''@ Beta FC''"
  have rows: "get_data stable_sort_values day_2025_01_01 (Inr roster_alpha)
      (Inr wikidata_web_name) (Inr fixtures_away) = Inr [?r]"
    by code_simp
  have "?r \<in> set [?r]" by simp
  from record_date_is_birthday [OF stable_sort_values_contract rows this]
  obtain data p p_dob where "Inr roster_alpha = (Inr data :: fetch_error + bootstrap)"
    "p \<in> set (players_frame data)" "Player ?r = full_name p"
    "lookup_dob (get_wikidata_birthdays (Inr wikidata_web_name)) p = Some p_dob"
    "month (Date ?r) = month p_dob" "day (Date ?r) = day p_dob"
    by blast
  then have "p \<in> set (players_frame roster_alpha) \<and> full_name p = ''John Smith'' \<and>
      lookup_dob (get_wikidata_birthdays (Inr wikidata_web_name)) p = Some p_dob \<and>
      month p_dob = 5 \<and> day p_dob = 10"
    by (simp add: scenario_row_def day_2026_05_10_def)
  then show ?thesis
    using stable_sort_values_contract rows by blast
qed

text \<open>
  C4. If the roster request fails, or the fixtures request fails, or the birthday request
  fails or its index comes out empty, \<open>get_data\<close> returns the empty frame, whatever the
  other responses are, and the page written is the head with the count 0, the paragraph
  saying that no matches were found, and the closing tags: no card.
\<close>

theorem fetch_failure_gives_placeholder:
  assumes "R = Inl e1 \<or> F = Inl e2 \<or> W = Inl e3 \<or> get_wikidata_birthdays W = []"
  shows "get_data srt today R W F = Inr [] \<and>
         script srt today R W F = Inr [Page_head 0, no_matches, page_end]"
proof -
  have "get_wikidata_birthdays (Inl e3) = []"
    by (simp add: get_wikidata_birthdays_def)
  with assms have "get_data srt today R W F = Inr []"
    by (auto simp: get_data_def Let_def split: sum.splits)
  then show ?thesis
    by (simp add: script_def html_content_def)
qed

theorem fetch_failure_gives_placeholder_witness:
  "Inl Request_failed = (Inl Request_failed :: fetch_error + fixture_json list) \<and>
   get_data stable_sort_values day_2025_01_01 (Inr roster_alpha) (Inr wikidata_full_name)
     (Inl Request_failed) = Inr [] \<and>
   script stable_sort_values day_2025_01_01 (Inr roster_alpha) (Inr wikidata_full_name)
     (Inl Request_failed) = Inr [Page_head 0, no_matches, page_end]"
  using fetch_failure_gives_placeholder
    [of "Inr roster_alpha" Request_failed "Inl Request_failed" Request_failed
      "Inr wikidata_full_name" Request_failed stable_sort_values day_2025_01_01]
  by simp

text \<open>
  C5. The status of every record of the returned frame is PLAYED exactly when its date is
  strictly before today, and UPCOMING otherwise; a record dated today is UPCOMING.
\<close>

theorem status_played_iff_before_today:
  assumes "sort_contract srt" and "get_data srt today R W F = Inr df" and "r \<in> set df"
  shows "(Status r = PLAYED) = date_less (Date r) today \<and>
         (Status r = UPCOMING) = (\<not> date_less (Date r) today) \<and>
         (Date r = today \<longrightarrow> Status r = UPCOMING)"
proof -
  from get_data_row [OF assms] obtain p p_dob m where "r = match_row today p p_dob m"
    by blast
  then show ?thesis
    by (simp add: match_row_fields date_less_irrefl)
qed

theorem status_played_iff_before_today_witness:
  "sort_contract stable_sort_values \<and>
   get_data stable_sort_values day_2026_05_10 (Inr roster_alpha) (Inr wikidata_full_name)
     (Inr fixtures_home) = Inr [scenario_row UPCOMING ''upcoming'' ''vs Beta FC''] \<and>
   Date (scenario_row UPCOMING ''upcoming'' ''vs Beta FC'') = day_2026_05_10 \<and>
   Status (scenario_row UPCOMING ''upcoming'' ''vs Beta FC'') = UPCOMING \<and>
   \<not> date_less (Date (scenario_row UPCOMING ''upcoming'' ''vs Beta FC'')) day_2026_05_10"
proof -
  let ?r = "scenario_row UPCOMING ''upcoming'' ''vs Beta FC''"
  have "?r \<in> set [?r]" by simp
  from status_played_iff_before_today
    [OF stable_sort_values_contract scenario_today_rows this]
  have "(Status ?r = UPCOMING) = (\<not> date_less (Date ?r) day_2026_05_10)"
    and "Date ?r = day_2026_05_10 \<longrightarrow> Status ?r = UPCOMING"
    by blast+
  moreover have "Date ?r = day_2026_05_10"
    by (simp add: scenario_row_def)
  ultimately show ?thesis
    using stable_sort_values_contract scenario_today_rows by blast
qed

text \<open>
  C6. The lookup order is the one of \<open>full_name_then_web_name\<close>, and a player with
  neither key adds no row. That such a player raises no error fails for the run as a
  whole: with John Smith the only player of the roster and an index that holds another
  player's birthday only, both keys are absent, the list of matches stays empty, and line
  120 raises \<open>KeyError\<close> where the page with the placeholder was to be written.
\<close>

theorem unresolved_player_alone_raises:
  "map_of (get_wikidata_birthdays (Inr wikidata_other)) (strip (lower ''John Smith'')) = None \<and>
   map_of (get_wikidata_birthdays (Inr wikidata_other)) (strip (lower ''J. Smith'')) = None \<and>
   lookup_dob (get_wikidata_birthdays (Inr wikidata_other))
     (player_row (teams_dict roster_alpha) john_smith) = None \<and>
   matches_found day_2025_01_01 roster_alpha (get_wikidata_birthdays (Inr wikidata_other))
     fixtures_home = [] \<and>
   get_data srt day_2025_01_01 (Inr roster_alpha) (Inr wikidata_other) (Inr fixtures_home) =
     Inl (KeyError ''Date'') \<and>
   script srt day_2025_01_01 (Inr roster_alpha) (Inr wikidata_other) (Inr fixtures_home) =
     Inl (KeyError ''Date'')"
proof -
  have keys: "map_of (get_wikidata_birthdays (Inr wikidata_other))
      (strip (lower ''John Smith'')) = None"
    "map_of (get_wikidata_birthdays (Inr wikidata_other)) (strip (lower ''J. Smith'')) = None"
    "lookup_dob (get_wikidata_birthdays (Inr wikidata_other))
      (player_row (teams_dict roster_alpha) john_smith) = None"
    by code_simp+
  have none: "matches_found day_2025_01_01 roster_alpha
      (get_wikidata_birthdays (Inr wikidata_other)) fixtures_home = []"
    by code_simp
  have ne: "elements roster_alpha \<noteq> []" "get_wikidata_birthdays (Inr wikidata_other) \<noteq> []"
    "fixtures_home \<noteq> []"
    by code_simp+
  have run: "script srt day_2025_01_01 (Inr roster_alpha) (Inr wikidata_other)
      (Inr fixtures_home) = Inl (KeyError ''Date'')"
    by (rule script_raises_without_matches [OF ne none])
  have "get_data srt day_2025_01_01 (Inr roster_alpha) (Inr wikidata_other)
      (Inr fixtures_home) = Inl (KeyError ''Date'')"
    using ne none by (simp add: get_data_def sort_values_def Let_def)
  with keys none run show ?thesis
    by (intro conjI)
qed

text \<open>
  C7. Every record of the returned frame comes from a fixture of the player's team, whose
  name is the record's \<open>Team\<close>. If that name is the fixture's home side, the opponent text
  is \<open>vs\<close>, a space, and the away side; if it is not the home side, it is the away side and
  the text is \<open>@\<close>, a space, and the home side. (\<open>cell_str\<close> of a side is its name, and
  \<open>nan\<close> for a side whose team id has no name.)
\<close>

theorem opponent_descriptor:
  assumes "sort_contract srt" and "get_data srt today R W F = Inr df" and "r \<in> set df"
  shows "\<exists>data fix_resp p m name. R = Inr data \<and> F = Inr fix_resp \<and>
           p \<in> set (players_frame data) \<and> m \<in> set (fixtures_frame data fix_resp) \<and>
           Player r = full_name p \<and> Team_Name p = Some name \<and> Team r = Some name \<and>
           Date r = kickoff_date m \<and>
           (Home m = Some name \<longrightarrow> Opponent r = ''vs '' @ cell_str (Away m)) \<and>
           (Home m \<noteq> Some name \<longrightarrow>
              Away m = Some name \<and> Opponent r = ''@ '' @ cell_str (Home m))"
proof -
  from get_data_row [OF assms] obtain data fix_resp p p_dob m
    where *: "R = Inr data" "F = Inr fix_resp" "p \<in> set (players_frame data)"
      "m \<in> set (team_fix (fixtures_frame data fix_resp) (Team_Name p))"
      "r = match_row today p p_dob m"
    by blast
  from *(4) have m: "m \<in> set (fixtures_frame data fix_resp)"
    and side: "cell_eq (Home m) (Team_Name p) \<or> cell_eq (Away m) (Team_Name p)"
    by (simp_all add: team_fix_def)
  from side obtain name where name: "Team_Name p = Some name"
    by (auto simp: cell_eq_iff)
  have fields: "Player r = full_name p" "Team r = Some name" "Date r = kickoff_date m"
    by (simp_all add: * match_row_fields name)
  have home: "Home m = Some name \<longrightarrow> Opponent r = ''vs '' @ cell_str (Away m)"
    by (simp add: * match_row_fields name cell_eq_iff)
  have away: "Home m \<noteq> Some name \<longrightarrow>
      Away m = Some name \<and> Opponent r = ''@ '' @ cell_str (Home m)"
    using side by (auto simp: * match_row_fields name cell_eq_iff)
  show ?thesis
    using *(1-3) m name fields home away by blast
qed

theorem opponent_descriptor_witness:
  "sort_contract stable_sort_values \<and>
   get_data stable_sort_values day_2025_01_01 (Inr roster_alpha) (Inr wikidata_full_name)
     (Inr fixtures_two_seasons) =
     Inr [scenario_row UPCOMING ''upcoming'' ''vs Beta FC'',
          (scenario_row UPCOMING ''upcoming'' ''@ Beta FC'')
            \<lparr>Date := \<lparr>year = 2027, month = 5, day = 10\<rparr>, Turning_Age := 29\<rparr>] \<and>
   (\<exists>m. m \<in> set (fixtures_frame roster_alpha fixtures_two_seasons) \<and>
      kickoff_date m = day_2026_05_10 \<and> Home m = Some ''Alpha FC'' \<and>
      ''vs Beta FC'' = ''vs '' @ cell_str (Away m)) \<and>
   (\<exists>m. m \<in> set (fixtures_frame roster_alpha fixtures_two_seasons) \<and>
      kickoff_date m = \<lparr>year = 2027, month = 5, day = 10\<rparr> \<and> Away m = Some ''Alpha FC'' \<and>
      ''@ Beta FC'' = ''@ '' @ cell_str (Home m))"
proof -
  let ?r1 = "scenario_row UPCOMING ''upcoming'' ''vs Beta FC''"
  let ?r2 = "(scenario_row UPCOMING ''upcoming'' ''@ Beta FC'')
      \<lparr>Date := \<lparr>year = 2027, month = 5, day = 10\<rparr>, Turning_Age := 29\<rparr>"
  have rows: "get_data stable_sort_values day_2025_01_01 (Inr roster_alpha)
      (Inr wikidata_full_name) (Inr fixtures_two_seasons) = Inr [?r1, ?r2]"
    by code_simp
  have frame: "fixtures_frame roster_alpha fixtures_two_seasons =
      [\<lparr>kickoff_date = \<lparr>year = 2027, month = 5, day = 10\<rparr>, Home = Some ''Beta FC'',
         Away = Some ''Alpha FC''\<rparr>,
       \<lparr>kickoff_date = day_2026_05_10, Home = Some ''Alpha FC'', Away = Some ''Beta FC''\<rparr>]"
    by code_simp
  let ?f1 = "\<lparr>kickoff_date = \<lparr>year = 2027, month = 5, day = 10\<rparr>, Home = Some ''Beta FC'',
      Away = Some ''Alpha FC''\<rparr>"
  let ?f2 = "\<lparr>kickoff_date = day_2026_05_10, Home = Some ''Alpha FC'',
      Away = Some ''Beta FC''\<rparr>"
  have "?r1 \<in> set [?r1, ?r2]" by simp
  from opponent_descriptor [OF stable_sort_values_contract rows this]
  obtain m1 name1 where m1: "m1 \<in> set (fixtures_frame roster_alpha fixtures_two_seasons)"
    "Team ?r1 = Some name1" "Date ?r1 = kickoff_date m1"
    "Home m1 = Some name1 \<longrightarrow> Opponent ?r1 = ''vs '' @ cell_str (Away m1)"
    by blast
  from m1(1) have "m1 = ?f1 \<or> m1 = ?f2"
    unfolding frame by simp
  with m1(3) have "m1 = ?f2"
    by (auto simp: scenario_row_def day_2026_05_10_def)
  with m1(2,4) have first: "kickoff_date m1 = day_2026_05_10 \<and> Home m1 = Some ''Alpha FC'' \<and>
      ''vs Beta FC'' = ''vs '' @ cell_str (Away m1)"
    by (simp add: scenario_row_def)
  have "?r2 \<in> set [?r1, ?r2]" by simp
  from opponent_descriptor [OF stable_sort_values_contract rows this]
  obtain m2 name2 where m2: "m2 \<in> set (fixtures_frame roster_alpha fixtures_two_seasons)"
    "Team ?r2 = Some name2" "Date ?r2 = kickoff_date m2"
    "Home m2 \<noteq> Some name2 \<longrightarrow>
       Away m2 = Some name2 \<and> Opponent ?r2 = ''@ '' @ cell_str (Home m2)"
    by blast
  from m2(1) have "m2 = ?f1 \<or> m2 = ?f2"
    unfolding frame by simp
  with m2(3) have "m2 = ?f1"
    by (auto simp: scenario_row_def day_2026_05_10_def)
  with m2(2,4) have second: "kickoff_date m2 = \<lparr>year = 2027, month = 5, day = 10\<rparr> \<and>
      Away m2 = Some ''Alpha FC'' \<and> ''@ Beta FC'' = ''@ '' @ cell_str (Home m2)"
    by (auto simp: scenario_row_def)
  show ?thesis
    using stable_sort_values_contract rows m1(1) first m2(1) second by blast
qed

text \<open>
  C8. For every record of the returned frame, \<open>Turning_Age\<close> is the year of the fixture
  date minus the year of the birth date found for the player the record was made from, as
  a plain integer difference: nothing is added or taken away for the day within the year.
\<close>

theorem turning_age_is_year_difference:
  assumes "sort_contract srt" and "get_data srt today R W F = Inr df" and "r \<in> set df"
  shows "\<exists>data p p_dob. R = Inr data \<and> p \<in> set (players_frame data) \<and>
           Player r = full_name p \<and> Team r = Team_Name p \<and>
           lookup_dob (get_wikidata_birthdays W) p = Some p_dob \<and>
           Turning_Age r = year (Date r) - year p_dob"
proof -
  from get_data_row [OF assms] obtain data fix_resp p p_dob m
    where "R = Inr data" "p \<in> set (players_frame data)"
      "lookup_dob (get_wikidata_birthdays W) p = Some p_dob" "r = match_row today p p_dob m"
    by blast
  then show ?thesis
    by (auto simp: match_row_fields)
qed

theorem turning_age_is_year_difference_witness:
  "sort_contract stable_sort_values \<and>
   get_data stable_sort_values day_2025_01_01 (Inr roster_alpha) (Inr wikidata_full_name)
     (Inr fixtures_home) = Inr [scenario_row UPCOMING ''upcoming'' ''vs Beta FC''] \<and>
   (\<exists>p p_dob. p \<in> set (players_frame roster_alpha) \<and>
      full_name p = ''John Smith'' \<and>
      lookup_dob (get_wikidata_birthdays (Inr wikidata_full_name)) p = Some p_dob \<and>
      28 = 2026 - year p_dob)"
proof -
  let ?r = "scenario_row UPCOMING ''upcoming'' ''vs Beta FC''"
  have "?r \<in> set [?r]" by simp
  from turning_age_is_year_difference
    [OF stable_sort_values_contract scenario_home_rows this]
  obtain data p p_dob where "Inr roster_alpha = (Inr data :: fetch_error + bootstrap)"
    "p \<in> set (players_frame data)" "Player ?r = full_name p"
    "lookup_dob (get_wikidata_birthdays (Inr wikidata_full_name)) p = Some p_dob"
    "Turning_Age ?r = year (Date ?r) - year p_dob"
    by blast
  then have "p \<in> set (players_frame roster_alpha) \<and> full_name p = ''John Smith'' \<and>
      lookup_dob (get_wikidata_birthdays (Inr wikidata_full_name)) p = Some p_dob \<and>
      28 = 2026 - year p_dob"
    by (simp add: scenario_row_def day_2026_05_10_def)
  then show ?thesis
    using stable_sort_values_contract scenario_home_rows by blast
qed

text \<open>
  C9. In every record of the returned frame the CSS class and the status agree: the class
  is \<open>played\<close> exactly when the status is PLAYED, and \<open>upcoming\<close> exactly when the
  status is UPCOMING, both being decided by the same comparison of the date with today.
\<close>

theorem css_class_matches_status:
  assumes "sort_contract srt" and "get_data srt today R W F = Inr df" and "r \<in> set df"
  shows "(CssClass r = ''played'') = (Status r = PLAYED) \<and>
         (CssClass r = ''upcoming'') = (Status r = UPCOMING) \<and>
         (CssClass r = ''played'') = date_less (Date r) today"
proof -
  from get_data_row [OF assms] obtain p p_dob m where "r = match_row today p p_dob m"
    by blast
  then show ?thesis
    by (simp add: match_row_fields)
qed

theorem css_class_matches_status_witness:
  "sort_contract stable_sort_values \<and>
   get_data stable_sort_values day_2026_05_11 (Inr roster_alpha) (Inr wikidata_full_name)
     (Inr fixtures_home) = Inr [scenario_row PLAYED ''played'' ''vs Beta FC''] \<and>
   (CssClass (scenario_row PLAYED ''played'' ''vs Beta FC'') = ''played'') =
     (Status (scenario_row PLAYED ''played'' ''vs Beta FC'') = PLAYED) \<and>
   date_less (Date (scenario_row PLAYED ''played'' ''vs Beta FC'')) day_2026_05_11"
proof -
  let ?r = "scenario_row PLAYED ''played'' ''vs Beta FC''"
  have "?r \<in> set [?r]" by simp
  from css_class_matches_status
    [OF stable_sort_values_contract scenario_played_rows this]
  have "(CssClass ?r = ''played'') = (Status ?r = PLAYED)"
    and "(CssClass ?r = ''played'') = date_less (Date ?r) day_2026_05_11"
    by blast+
  moreover have "CssClass ?r = ''played''"
    by (simp add: scenario_row_def)
  ultimately show ?thesis
    using stable_sort_values_contract scenario_played_rows by blast
qed

text \<open>
  C10. A player with an unknown team id has no team name, is given no fixture and adds no
  row (\<open>unknown_team_id_no_records\<close>). That such a player raises no error fails for the
  run as a whole: with Jane Doe of the unknown team 3 the only player of the roster, her
  birthday in the index and a fixture on that day, the list of matches stays empty, and
  line 120 raises \<open>KeyError\<close> where the page with the placeholder was to be written.
\<close>

theorem unknown_team_player_alone_raises:
  "team loan_player \<notin> fst ` set (teams roster_alpha) \<and>
   Team_Name (player_row (teams_dict roster_alpha) loan_player) = None \<and>
   lookup_dob (get_wikidata_birthdays (Inr wikidata_other))
     (player_row (teams_dict roster_alpha) loan_player) = Some \<lparr>year = 1997, month = 5, day = 10\<rparr> \<and>
   matches_found day_2025_01_01 (roster_alpha\<lparr>elements := [loan_player]\<rparr>)
     (get_wikidata_birthdays (Inr wikidata_other)) fixtures_home = [] \<and>
   get_data srt day_2025_01_01 (Inr (roster_alpha\<lparr>elements := [loan_player]\<rparr>))
     (Inr wikidata_other) (Inr fixtures_home) = Inl (KeyError ''Date'') \<and>
   script srt day_2025_01_01 (Inr (roster_alpha\<lparr>elements := [loan_player]\<rparr>))
     (Inr wikidata_other) (Inr fixtures_home) = Inl (KeyError ''Date'')"
proof -
  have id: "team loan_player \<notin> fst ` set (teams roster_alpha)"
    by (simp add: loan_player_def roster_alpha_def)
  have cells: "Team_Name (player_row (teams_dict roster_alpha) loan_player) = None"
    "lookup_dob (get_wikidata_birthdays (Inr wikidata_other))
      (player_row (teams_dict roster_alpha) loan_player) = Some \<lparr>year = 1997, month = 5, day = 10\<rparr>"
    by code_simp+
  have none: "matches_found day_2025_01_01 (roster_alpha\<lparr>elements := [loan_player]\<rparr>)
      (get_wikidata_birthdays (Inr wikidata_other)) fixtures_home = []"
    by code_simp
  have ne: "elements (roster_alpha\<lparr>elements := [loan_player]\<rparr>) \<noteq> []"
    "get_wikidata_birthdays (Inr wikidata_other) \<noteq> []" "fixtures_home \<noteq> []"
    by code_simp+
  have run: "script srt day_2025_01_01 (Inr (roster_alpha\<lparr>elements := [loan_player]\<rparr>))
      (Inr wikidata_other) (Inr fixtures_home) = Inl (KeyError ''Date'')"
    by (rule script_raises_without_matches [OF ne none])
  have "get_data srt day_2025_01_01 (Inr (roster_alpha\<lparr>elements := [loan_player]\<rparr>))
      (Inr wikidata_other) (Inr fixtures_home) = Inl (KeyError ''Date'')"
    using ne none by (simp add: get_data_def sort_values_def Let_def)
  with id cells none run show ?thesis
    by (intro conjI)
qed

end
